theory Spec2Isabelle
  imports Complex_Main "HOL-Library.Log_Nat"
begin

section \<open>Slots of a sample holder (plate/slot.py)\<close>

text \<open>
  Modelled from the spec: the barcode class is not under src/. A slot only ever calls
  three methods of the barcode object it stores, \<^verbatim>\<open>is_unreadable()\<close>,
  \<^verbatim>\<open>is_valid()\<close> and \<^verbatim>\<open>data()\<close>, so a barcode object is the record
  of what these three return. The two flags are independent, as nothing in slot.py
  relates them. A barcode object that is present is truthy (Python's default for an
  instance of a class), so \<^verbatim>\<open>self._barcode and ...\<close> tests presence.
\<close>

record barcode =
  is_unreadable :: bool
  is_valid :: bool
  data :: string

type_synonym point = "rat \<times> rat"
type_synonym bounds = "point \<times> rat"

definition EMPTY_SLOT_SYMBOL :: string where
  "EMPTY_SLOT_SYMBOL = ''----EMPTY----''"

definition NOT_FOUND_SLOT_SYMBOL :: string where
  "NOT_FOUND_SLOT_SYMBOL = ''-CANT-FIND-''"

text \<open>The class constants of \<^verbatim>\<open>Slot\<close>: the four statuses are Python integers.\<close>

definition NO_RESULT :: int where "NO_RESULT = 0"
definition EMPTY :: int where "EMPTY = 1"
definition UNREADABLE :: int where "UNREADABLE = 2"
definition VALID :: int where "VALID = 3"

text \<open>
  The attributes of a \<^verbatim>\<open>Slot\<close> instance, \<^verbatim>\<open>self._number\<close> and so on
  (an identifier cannot start with an underscore here, so the leading underscore is
  written \<open>s_\<close>). \<^verbatim>\<open>None\<close> is \<open>None\<close>.
\<close>

record slot =
  s_number :: int
  s_bounds :: "bounds option"
  s_barcode_position :: "point option"
  s_barcode :: "barcode option"
  s_empty :: bool
  s_total_frames :: int
  s_barcode_set_this_frame :: bool

definition Slot_init :: "int \<Rightarrow> slot" where
  "Slot_init n =
     \<lparr> s_number = n, s_bounds = None, s_barcode_position = None, s_barcode = None,
       s_empty = False, s_total_frames = 0, s_barcode_set_this_frame = False \<rparr>"

definition new_frame :: "slot \<Rightarrow> slot" where
  "new_frame s =
     (let s1 = s\<lparr>s_total_frames := s_total_frames s + 1\<rparr>
      in s1\<lparr>s_barcode_set_this_frame := False\<rparr>)"

definition number :: "slot \<Rightarrow> int" where
  "number s = s_number s"

definition bounds :: "slot \<Rightarrow> bounds option" where
  "bounds s = s_bounds s"

definition barcode_position :: "slot \<Rightarrow> point option" where
  "barcode_position s = s_barcode_position s"

definition barcode_this_frame :: "slot \<Rightarrow> bool" where
  "barcode_this_frame s = s_barcode_set_this_frame s"

definition set_bounds :: "slot \<Rightarrow> bounds option \<Rightarrow> slot" where
  "set_bounds s b = s\<lparr>s_bounds := b\<rparr>"

definition set_barcode_position :: "slot \<Rightarrow> point option \<Rightarrow> slot" where
  "set_barcode_position s c = s\<lparr>s_barcode_position := c\<rparr>"

text \<open>
  \<^verbatim>\<open>set_barcode\<close> stores its argument before it tests it: the assignment
  \<^verbatim>\<open>self._barcode = barcode\<close> is outside the \<^verbatim>\<open>if barcode is not None\<close>.
\<close>

definition set_barcode :: "slot \<Rightarrow> barcode option \<Rightarrow> slot" where
  "set_barcode s b =
     (let s1 = s\<lparr>s_barcode := b\<rparr>
      in if b \<noteq> None
         then (s1\<lparr>s_empty := False\<rparr>)\<lparr>s_barcode_set_this_frame := True\<rparr>
         else s1)"

definition set_empty :: "slot \<Rightarrow> slot" where
  "set_empty s = (s\<lparr>s_barcode := None\<rparr>)\<lparr>s_empty := True\<rparr>"

definition set_no_result :: "slot \<Rightarrow> slot" where
  "set_no_result s = (s\<lparr>s_barcode := None\<rparr>)\<lparr>s_empty := False\<rparr>"

text \<open>
  \<^verbatim>\<open>state\<close> reads the slot and assigns nothing, so it is a function of the slot
  alone that returns the status; the slot after the call is the slot before it.
\<close>

definition state :: "slot \<Rightarrow> int" where
  "state s =
     (if s_empty s then EMPTY
      else if (case s_barcode s of None \<Rightarrow> False | Some b \<Rightarrow> is_unreadable b) then UNREADABLE
      else if (case s_barcode s of None \<Rightarrow> False | Some b \<Rightarrow> is_valid b) then VALID
      else NO_RESULT)"

definition contains_barcode :: "slot \<Rightarrow> bool" where
  "contains_barcode s = (let st = state s in st = UNREADABLE \<or> st = VALID)"

definition barcode_data :: "slot \<Rightarrow> string" where
  "barcode_data s =
     (if s_empty s then EMPTY_SLOT_SYMBOL
      else (case s_barcode s of Some b \<Rightarrow> data b | None \<Rightarrow> NOT_FOUND_SLOT_SYMBOL))"

section \<open>The beep frequency (continuous.py line 142, camera_scanner.py \<^verbatim>\<open>_plate_beep\<close>)\<close>

datatype py_error = ZeroDivisionError

text \<open>
  The repository is Python 2: tests/scratchpad.py uses the \<^verbatim>\<open>print\<close> statement,
  and camera_scanner.py asks for true division with
  \<^verbatim>\<open>from __future__ import division\<close>. continuous.py has no such import, so its
  \<^verbatim>\<open>/\<close> on two integers is floor division (\<open>div\<close> on \<open>int\<close> rounds the
  same way), and \<^verbatim>\<open>int\<close> of the integer result is that integer. The number
  of slots and the number of valid barcodes of a plate are counts, Python integers.
  \<^verbatim>\<open>winsound.Beep\<close> itself is outside the repository; a beep is recorded with
  its frequency and duration.
\<close>

definition frequency_continuous :: "int \<Rightarrow> int \<Rightarrow> py_error + int" where
  "frequency_continuous num_slots num_valid_barcodes =
     (if num_slots = 0 then Inl ZeroDivisionError
      else Inr (10000 * ((num_slots - num_valid_barcodes) div num_slots) + 37))"

text \<open>
  In camera_scanner.py the division is true division and the arithmetic is that of
  Python floats, IEEE 754 binary64: every operation gives the exact result rounded to 53
  significant bits, to nearest, ties to even. A float is modelled by the rational it
  denotes. \<open>exponent2 q\<close> is \<open>\<lfloor>log\<^sub>2 \<bar>q\<bar>\<rfloor>\<close> for \<open>q \<noteq> 0\<close>, found from the bit
  lengths of numerator and denominator; \<open>py_float q\<close> is \<open>q\<close> rounded to a float.
  The range of the exponent is not modelled: the values here lie between 0 and 10037,
  far from overflow and from the subnormal numbers. The true division of two integers
  is correctly rounded, and so are the product and the sum of an integer and a float,
  the integers 10000 and 37 being floats themselves.
  \<^verbatim>\<open>int(x)\<close> of a float truncates towards zero.
\<close>

definition pow2 :: "int \<Rightarrow> rat" where
  "pow2 e = (if 0 \<le> e then 2 ^ nat e else 1 / 2 ^ nat (- e))"

definition round_half_even :: "rat \<Rightarrow> int" where
  "round_half_even q =
     (let f = \<lfloor>q\<rfloor>; r = q - of_int f
      in if r < 1 / 2 then f
         else if 1 / 2 < r then f + 1
         else if even f then f else f + 1)"

definition exponent2 :: "rat \<Rightarrow> int" where
  "exponent2 q =
     (let (a, b) = quotient_of \<bar>q\<bar>; d = bitlen a - bitlen b
      in if pow2 d \<le> \<bar>q\<bar> then d else d - 1)"

definition py_float :: "rat \<Rightarrow> rat" where
  "py_float q =
     (if q = 0 then 0
      else (let e = exponent2 q - 52
            in of_int (round_half_even (q / pow2 e)) * pow2 e))"

definition py_int :: "rat \<Rightarrow> int" where
  "py_int q = (if q < 0 then \<lceil>q\<rceil> else \<lfloor>q\<rfloor>)"

definition frequency_camera :: "int \<Rightarrow> int \<Rightarrow> py_error + int" where
  "frequency_camera num_slots num_valid_barcodes =
     (if num_slots = 0 then Inl ZeroDivisionError
      else (let empty_fraction =
                  py_float (of_int (num_slots - num_valid_barcodes) / of_int num_slots)
            in Inr (py_int (py_float (py_float (10000 * empty_fraction) + 37)))))"

text \<open>
  What the specification's words give, for comparison: the fraction
  \<open>(numSlots - numValid) / numSlots\<close> under exact arithmetic, scaled by 10000,
  rounded down, plus 37.
\<close>

definition frequency_spec :: "int \<Rightarrow> int \<Rightarrow> int" where
  "frequency_spec numSlots numValid =
     \<lfloor>10000 * (of_int (numSlots - numValid) / (of_int numSlots :: rat))\<rfloor> + 37"

section \<open>The capture worker (camera_scanner.py \<^verbatim>\<open>_capture_worker\<close>, continuous.py \<^verbatim>\<open>capture_worker\<close>)\<close>

definition Q_LIMIT :: int where "Q_LIMIT = 1"
definition MAX_SAMPLE_RATE :: rat where "MAX_SAMPLE_RATE = 10"
definition INTERVAL :: rat where "INTERVAL = 1 / MAX_SAMPLE_RATE"

text \<open>
  The worker runs in a process of its own; what it learns of the camera, the queues, the
  clock and the keyboard in one pass of its loop is the input of that pass:
  whether \<^verbatim>\<open>kill_queue.empty()\<close> held at the head of the loop (camera_scanner.py only),
  the frame that \<^verbatim>\<open>cap.read()\<close> gave (\<open>None\<close> when the read failed),
  the value of \<^verbatim>\<open>task_queue.qsize()\<close>, the value of \<^verbatim>\<open>time.time()\<close> in the
  guard, the instant at which the put takes place (which the program does not read), the
  value of \<^verbatim>\<open>time.time()\<close> stored in \<^verbatim>\<open>last_time\<close> after the put, and whether
  the exit key was pressed. Clock values are exact rationals, in seconds.
\<close>

record 'f tick =
  kill_queue_empty :: bool
  cap_read :: "'f option"
  qsize :: int
  t_guard :: rat
  t_put :: rat
  t_stamp :: rat
  exit_key :: bool

text \<open>
  What the worker puts on the task queue: the copy of a frame, tagged here with the
  instant of the put, or the sentinel \<^verbatim>\<open>None\<close>. \<open>payload\<close> is the item itself.
\<close>

datatype 'f put = PutFrame rat 'f | PutSentinel

fun payload :: "'f put \<Rightarrow> 'f option" where
  "payload (PutFrame t fr) = Some fr"
| "payload PutSentinel = None"

text \<open>
  A worker observed over finitely many passes of its loop is still in the loop
  (\<open>Running\<close>), has left the loop and returned (\<open>Exited\<close>), or has raised
  (\<open>Raised\<close>). A frame that is \<^verbatim>\<open>None\<close> makes the worker raise before it puts
  anything: \<^verbatim>\<open>frame.copy()\<close> fails when the guard holds, and
  \<^verbatim>\<open>cv2.resize(frame, ...)\<close> fails otherwise.
\<close>

datatype run_status = Running | Exited | Raised

text \<open>The guard and its body: lines 93 to 96 of camera_scanner.py, 67 to 70 of continuous.py.\<close>

definition enqueue_frame :: "rat \<Rightarrow> 'f tick \<Rightarrow> 'f \<Rightarrow> rat \<times> 'f put list" where
  "enqueue_frame last_time k fr =
     (if qsize k < Q_LIMIT \<and> t_guard k - last_time \<ge> INTERVAL
      then (t_stamp k, [PutFrame (t_put k) fr])
      else (last_time, []))"

text \<open>
  The loops, from the value of \<^verbatim>\<open>last_time\<close> and the passes observed, to the status
  of the worker and its puts on the task queue, in order. Draining the overlay queue and
  showing the frame touch neither \<^verbatim>\<open>last_time\<close> nor the task queue.
  In camera_scanner.py the sentinel is put after the loop, whichever way the loop ends; in
  continuous.py it is put before the \<^verbatim>\<open>break\<close>.
\<close>

fun cs_capture_worker :: "rat \<Rightarrow> 'f tick list \<Rightarrow> run_status \<times> 'f put list" where
  "cs_capture_worker last_time [] = (Running, [])"
| "cs_capture_worker last_time (k # ks) =
     (if \<not> kill_queue_empty k then (Exited, [PutSentinel])
      else (case cap_read k of
              None \<Rightarrow> (Raised, [])
            | Some fr \<Rightarrow>
                (let (last_time', puts) = enqueue_frame last_time k fr
                 in if exit_key k then (Exited, puts @ [PutSentinel])
                    else (let (st, rest) = cs_capture_worker last_time' ks
                          in (st, puts @ rest)))))"

fun capture_worker :: "rat \<Rightarrow> 'f tick list \<Rightarrow> run_status \<times> 'f put list" where
  "capture_worker last_time [] = (Running, [])"
| "capture_worker last_time (k # ks) =
     (case cap_read k of
        None \<Rightarrow> (Raised, [])
      | Some fr \<Rightarrow>
          (let (last_time', puts) = enqueue_frame last_time k fr
           in if exit_key k then (Exited, puts @ [PutSentinel])
              else (let (st, rest) = capture_worker last_time' ks
                    in (st, puts @ rest))))"

text \<open>
  \<^verbatim>\<open>CameraScanner.kill\<close> puts \<^verbatim>\<open>None\<close> on the kill queue and on the task queue.
  Only these two queues of the object are touched.
\<close>

record 'f camera_scanner =
  task_queue :: "'f option list"
  kill_queue :: "unit option list"

definition kill :: "'f camera_scanner \<Rightarrow> 'f camera_scanner" where
  "kill c = (c\<lparr>kill_queue := kill_queue c @ [None]\<rparr>)\<lparr>task_queue := task_queue c @ [None]\<rparr>"

text \<open>
  The instants of the frames put, all the clock values of a run in the order in which
  they are taken, and the number of frames put in the window from \<open>a\<close> (included) to
  \<open>a + T\<close> (excluded).
\<close>

fun put_times :: "'f put list \<Rightarrow> rat list" where
  "put_times [] = []"
| "put_times (PutFrame t fr # ps) = t # put_times ps"
| "put_times (PutSentinel # ps) = put_times ps"

definition clock_readings :: "'f tick list \<Rightarrow> rat list" where
  "clock_readings ks = concat (map (\<lambda>k. [t_guard k, t_put k, t_stamp k]) ks)"

definition enqueued_in_window :: "rat \<Rightarrow> rat \<Rightarrow> 'f put list \<Rightarrow> nat" where
  "enqueued_in_window a T ps = length (filter (\<lambda>t. a \<le> t \<and> t < a + T) (put_times ps))"

definition separated :: "rat list \<Rightarrow> bool" where
  "separated ts = sorted_wrt (\<lambda>x y. x + INTERVAL \<le> y) ts"

section \<open>The scan worker of continuous.py (\<^verbatim>\<open>scanner_worker\<close>)\<close>

text \<open>
  The classes \<^verbatim>\<open>Plate\<close> and \<^verbatim>\<open>Scanner\<close> are not under src/, so the worker is
  modelled for any type \<open>'p\<close> of plates, with what it asks of a plate
  (\<^verbatim>\<open>scan_ok\<close>, \<^verbatim>\<open>has_slots_in_common\<close>, \<^verbatim>\<open>is_full_valid\<close>, \<^verbatim>\<open>num_slots\<close>,
  \<^verbatim>\<open>num_valid_barcodes\<close>) and the two scanning functions as parameters. The scanning
  functions take the frame (its grayscale image is a function of it) and may act on
  whatever lies outside the worker, of type \<open>'w\<close>, which they return updated. Plates are
  values. A plate that is present is truthy, so \<^verbatim>\<open>if last_full_plate and ...\<close> tests
  presence first.
\<close>

record 'p plate_ops =
  scan_ok :: "'p \<Rightarrow> bool"
  has_slots_in_common :: "'p \<Rightarrow> 'p \<Rightarrow> bool"
  is_full_valid :: "'p \<Rightarrow> bool"
  num_slots :: "'p \<Rightarrow> int"
  num_valid_barcodes :: "'p \<Rightarrow> int"

record ('f, 'p, 'w) scanner =
  ScanImage :: "'f \<Rightarrow> 'w \<Rightarrow> 'p \<times> 'w"
  ScanImageContinuous :: "'f \<Rightarrow> 'p \<Rightarrow> 'w \<Rightarrow> ('p \<times> bool) \<times> 'w"

definition SCANNED_TAG :: string where
  "SCANNED_TAG = ''Already Scanned''"

text \<open>\<^verbatim>\<open>Overlay(plate, text=None)\<close>: the plate and the text of an overlay.\<close>

datatype 'p overlay = Overlay "'p option" "string option"

text \<open>
  The state of the worker: its three local variables, what it has put on the overlay
  queue and on the result queue, the beeps it has made (frequency and duration), and the
  world outside. A result is the plate with the image of the frame it was read from.
\<close>

record ('f, 'p, 'w) scan_state =
  last_plate :: "'p option"
  last_full_plate :: "'p option"
  frame_contains_barcodes :: bool
  overlay_queue :: "'p overlay list"
  result_queue :: "('p \<times> 'f) list"
  beeps :: "(int \<times> int) list"
  ext :: 'w

definition scanner_init :: "'w \<Rightarrow> ('f, 'p, 'w) scan_state" where
  "scanner_init w =
     \<lparr> last_plate = None, last_full_plate = None, frame_contains_barcodes = False,
       overlay_queue = [], result_queue = [], beeps = [], ext = w \<rparr>"

text \<open>
  Lines 121 to 124: the first scan, or the scan that is given the previous plate. The
  first scan leaves \<^verbatim>\<open>frame_contains_barcodes\<close> as it is.
\<close>

definition scan_frame ::
  "('f, 'p, 'w) scanner \<Rightarrow> ('f, 'p, 'w) scan_state \<Rightarrow> 'f \<Rightarrow> ('p \<times> bool) \<times> 'w" where
  "scan_frame sc st fr =
     (case last_plate st of
        None \<Rightarrow> (let (p, w) = ScanImage sc fr (ext st) in ((p, frame_contains_barcodes st), w))
      | Some lp \<Rightarrow> ScanImageContinuous sc fr lp (ext st))"

text \<open>
  Lines 127 to 144. The division of line 142 raises when the plate has no slot; the
  state at that point comes with the error, as the result was put before.
\<close>

definition handle_plate ::
  "'p plate_ops \<Rightarrow> 'f \<Rightarrow> 'p \<Rightarrow> ('f, 'p, 'w) scan_state
     \<Rightarrow> (py_error \<times> ('f, 'p, 'w) scan_state) + ('f, 'p, 'w) scan_state" where
  "handle_plate ops fr p st =
     (if scan_ok ops p then
        (let st1 = st\<lparr>last_plate := Some p\<rparr>
         in if (case last_full_plate st1 of
                  None \<Rightarrow> False
                | Some full \<Rightarrow> has_slots_in_common ops full p)
            then (if frame_contains_barcodes st1
                  then Inr (st1\<lparr>overlay_queue :=
                              overlay_queue st1 @ [Overlay None (Some SCANNED_TAG)]\<rparr>)
                  else Inr st1)
            else
              (let st2 = (if is_full_valid ops p
                          then (st1\<lparr>result_queue := result_queue st1 @ [(p, fr)]\<rparr>)
                                 \<lparr>last_full_plate := Some p\<rparr>
                          else st1)
               in if frame_contains_barcodes st2
                  then (case frequency_continuous (num_slots ops p) (num_valid_barcodes ops p) of
                          Inl e \<Rightarrow> Inl (e, st2)
                        | Inr frequency \<Rightarrow>
                            Inr ((st2\<lparr>beeps := beeps st2 @ [(frequency, 200)]\<rparr>)
                                   \<lparr>overlay_queue := overlay_queue st2 @ [Overlay (Some p) None]\<rparr>))
                  else Inr st2))
      else Inr st)"

text \<open>One pass of the loop on a frame that is not the sentinel.\<close>

definition scanner_frame ::
  "('f, 'p, 'w) scanner \<Rightarrow> 'p plate_ops \<Rightarrow> 'f \<Rightarrow> ('f, 'p, 'w) scan_state
     \<Rightarrow> (py_error \<times> ('f, 'p, 'w) scan_state) + ('f, 'p, 'w) scan_state" where
  "scanner_frame sc ops fr st =
     (let ((p, fcb), w) = scan_frame sc st fr
      in handle_plate ops fr p (st\<lparr>frame_contains_barcodes := fcb, ext := w\<rparr>))"

text \<open>
  The loop over the items that the task queue delivers, in order. When the items run out
  and no sentinel came, the worker waits in \<^verbatim>\<open>task_queue.get(True)\<close> for ever: the
  result is \<open>None\<close>. Otherwise the worker raises, or returns with its state and the
  items it left on the queue.
\<close>

fun scanner_loop ::
  "('f, 'p, 'w) scanner \<Rightarrow> 'p plate_ops \<Rightarrow> ('f, 'p, 'w) scan_state \<Rightarrow> 'f option list
     \<Rightarrow> ((py_error \<times> ('f, 'p, 'w) scan_state) + ('f, 'p, 'w) scan_state \<times> 'f option list) option"
  where
  "scanner_loop sc ops st [] = None"
| "scanner_loop sc ops st (None # q) = Some (Inr (st, q))"
| "scanner_loop sc ops st (Some fr # q) =
     (case scanner_frame sc ops fr st of
        Inl e \<Rightarrow> Some (Inl e)
      | Inr st' \<Rightarrow> scanner_loop sc ops st' q)"

definition scanner_worker ::
  "('f, 'p, 'w) scanner \<Rightarrow> 'p plate_ops \<Rightarrow> 'w \<Rightarrow> 'f option list
     \<Rightarrow> ((py_error \<times> ('f, 'p, 'w) scan_state) + ('f, 'p, 'w) scan_state \<times> 'f option list) option"
  where
  "scanner_worker sc ops w q = scanner_loop sc ops (scanner_init w) q"

section \<open>The scan worker of camera_scanner.py (\<^verbatim>\<open>_scanner_worker\<close>)\<close>

definition CS_SCANNED_TAG :: string where
  "CS_SCANNED_TAG = ''Scan Complete''"

definition NO_PUCK_TIME :: rat where
  "NO_PUCK_TIME = 2"

datatype color = Green | Red

datatype 'p cs_overlay = TextOverlay string color | PlateOverlay 'p

text \<open>
  The scanners and the class of their results are not under src/. A scan result is the
  record of what the worker reads from it; nothing in camera_scanner.py relates the four
  flags, so they are independent. Of the options the worker reads, \<^verbatim>\<open>console_frame\<close>
  only prints and \<^verbatim>\<open>scan_beep\<close> switches the beep.
\<close>

record 'p scan_result =
  success :: bool
  already_scanned :: bool
  any_valid_barcodes :: bool
  any_new_barcodes :: bool
  plate :: 'p
  error :: string

text \<open>
  Modelled from the spec: the class of scan results is not under src/, and nothing
  under src/ says which combinations of its flags a scanner returns. The Scan Result of
  section 3 of the specification carries one outcome tag out of four. A scan result has
  the outcome \<open>tag\<close> when it is a success unless the tag is AlignmentFailed, is
  already scanned exactly for DuplicateOfLastReported, and has new barcodes, which is
  what makes the worker put a result, exactly for NewBarcodesFound.
\<close>

datatype outcome_tag = AlignmentFailed | DuplicateOfLastReported | PartialProgress | NewBarcodesFound


record options =
  console_frame :: bool
  scan_beep :: bool

record ('f, 'p, 'w) cs_state =
  last_plate_time :: rat
  cs_overlay_queue :: "'p cs_overlay list"
  cs_result_queue :: "('p \<times> 'f) list"
  cs_beeps :: "(int \<times> int) list"
  cs_ext :: 'w

definition cs_scanner_init :: "rat \<Rightarrow> 'w \<Rightarrow> ('f, 'p, 'w) cs_state" where
  "cs_scanner_init now w =
     \<lparr> last_plate_time = now, cs_overlay_queue = [], cs_result_queue = [], cs_beeps = [],
       cs_ext = w \<rparr>"

definition plate_beep ::
  "'p plate_ops \<Rightarrow> options \<Rightarrow> 'p \<Rightarrow> ('f, 'p, 'w) cs_state
     \<Rightarrow> (py_error \<times> ('f, 'p, 'w) cs_state) + ('f, 'p, 'w) cs_state" where
  "plate_beep ops opts p st =
     (if \<not> scan_beep opts then Inr st
      else (case frequency_camera (num_slots ops p) (num_valid_barcodes ops p) of
              Inl e \<Rightarrow> Inl (e, st)
            | Inr frequency \<Rightarrow> Inr (st\<lparr>cs_beeps := cs_beeps st @ [(frequency, 200)]\<rparr>)))"

text \<open>Lines 172 and 173: the result is put when the scan result reports new barcodes.\<close>

definition put_result ::
  "'f \<Rightarrow> 'p scan_result \<Rightarrow> ('f, 'p, 'w) cs_state \<Rightarrow> ('f, 'p, 'w) cs_state" where
  "put_result fr r st =
     (if any_new_barcodes r
      then st\<lparr>cs_result_queue := cs_result_queue st @ [(plate r, fr)]\<rparr>
      else st)"

text \<open>
  Lines 159 to 178, with the value \<open>now\<close> of \<^verbatim>\<open>time.time()\<close>, which either branch
  reads once.
\<close>

definition cs_handle_result ::
  "'p plate_ops \<Rightarrow> options \<Rightarrow> 'f \<Rightarrow> rat \<Rightarrow> 'p scan_result \<Rightarrow> ('f, 'p, 'w) cs_state
     \<Rightarrow> (py_error \<times> ('f, 'p, 'w) cs_state) + ('f, 'p, 'w) cs_state" where
  "cs_handle_result ops opts fr now r st =
     (if success r then
        (let st1 = st\<lparr>last_plate_time := now\<rparr>
         in if already_scanned r
            then Inr (put_result fr r
                   (st1\<lparr>cs_overlay_queue :=
                          cs_overlay_queue st1 @ [TextOverlay CS_SCANNED_TAG Green]\<rparr>))
            else if any_valid_barcodes r
            then (case plate_beep ops opts (plate r)
                         (st1\<lparr>cs_overlay_queue := cs_overlay_queue st1 @ [PlateOverlay (plate r)]\<rparr>) of
                    Inl e \<Rightarrow> Inl e
                  | Inr st2 \<Rightarrow> Inr (put_result fr r st2))
            else Inr (put_result fr r st1))
      else
        (let time_since_plate = now - last_plate_time st
         in if time_since_plate > NO_PUCK_TIME
            then Inr (st\<lparr>cs_overlay_queue := cs_overlay_queue st @ [TextOverlay (error r) Red]\<rparr>)
            else Inr st))"

text \<open>
  One pass of the loop: an item of the queue is a frame, here with the clock value read
  while it is processed.
\<close>

definition cs_scanner_frame ::
  "('f \<Rightarrow> 'w \<Rightarrow> 'p scan_result \<times> 'w) \<Rightarrow> 'p plate_ops \<Rightarrow> options \<Rightarrow> 'f \<times> rat
     \<Rightarrow> ('f, 'p, 'w) cs_state \<Rightarrow> (py_error \<times> ('f, 'p, 'w) cs_state) + ('f, 'p, 'w) cs_state" where
  "cs_scanner_frame scan_next_frame ops opts item st =
     (let (r, w) = scan_next_frame (fst item) (cs_ext st)
      in cs_handle_result ops opts (fst item) (snd item) r (st\<lparr>cs_ext := w\<rparr>))"

fun cs_scanner_loop ::
  "('f \<Rightarrow> 'w \<Rightarrow> 'p scan_result \<times> 'w) \<Rightarrow> 'p plate_ops \<Rightarrow> options \<Rightarrow> ('f, 'p, 'w) cs_state
     \<Rightarrow> ('f \<times> rat) option list
     \<Rightarrow> ((py_error \<times> ('f, 'p, 'w) cs_state) + ('f, 'p, 'w) cs_state \<times> ('f \<times> rat) option list) option"
  where
  "cs_scanner_loop scan_next_frame ops opts st [] = None"
| "cs_scanner_loop scan_next_frame ops opts st (None # q) = Some (Inr (st, q))"
| "cs_scanner_loop scan_next_frame ops opts st (Some item # q) =
     (case cs_scanner_frame scan_next_frame ops opts item st of
        Inl e \<Rightarrow> Some (Inl e)
      | Inr st' \<Rightarrow> cs_scanner_loop scan_next_frame ops opts st' q)"

section \<open>The frame merge engine\<close>

text \<open>
  Modelled from the spec: the class \<^verbatim>\<open>Scanner\<close> with its functions
  \<^verbatim>\<open>ScanImage\<close> and \<^verbatim>\<open>ScanImageContinuous\<close>, and the class \<^verbatim>\<open>Plate\<close>, are not
  under src/. What follows is the frame merge engine of section 4.2 of the
  specification, on the plate snapshot of its section 3, with the duplicate test of its
  section 4.3, over the slots of slot.py.

  The two collaborators of the engine are parameters: geometry alignment, which fails
  or gives the region of every slot index, and the decode capability, with its four
  outcomes.
\<close>

datatype decode_outcome = Decoded_Valid string | Decoded_Unreadable | Decoded_Empty | Decoded_NoResult

record 'f capabilities =
  align :: "'f \<Rightarrow> (nat \<Rightarrow> bounds) option"
  decode :: "'f \<Rightarrow> bounds \<Rightarrow> decode_outcome"

record plate_snapshot =
  slots :: "slot list"
  alignmentOk :: bool

text \<open>
  The outcome of a decode is applied to the slot with \<^verbatim>\<open>set_barcode\<close>,
  \<^verbatim>\<open>set_empty\<close> or \<^verbatim>\<open>set_no_result\<close>. The specification does not give the sentinel
  that an unreadable barcode carries; it is the empty string here.
\<close>

definition UNREADABLE_SYMBOL :: string where
  "UNREADABLE_SYMBOL = []"

definition apply_outcome :: "slot \<Rightarrow> decode_outcome \<Rightarrow> slot" where
  "apply_outcome s r =
     (case r of
        Decoded_Valid d \<Rightarrow> set_barcode s (Some \<lparr>is_unreadable = False, is_valid = True, data = d\<rparr>)
      | Decoded_Unreadable \<Rightarrow>
          set_barcode s (Some \<lparr>is_unreadable = True, is_valid = False, data = UNREADABLE_SYMBOL\<rparr>)
      | Decoded_Empty \<Rightarrow> set_empty s
      | Decoded_NoResult \<Rightarrow> set_no_result s)"

text \<open>
  Steps 2 to 4 for the slot of index \<open>i\<close>: the bounds are set; a slot whose status is
  Valid is not decoded; any other slot is decoded and the outcome applied. \<open>calls\<close> is
  the list of the slot indices for which the decode capability has been invoked so far.
\<close>

definition merge_slot ::
  "('f \<Rightarrow> bounds \<Rightarrow> decode_outcome) \<Rightarrow> 'f \<Rightarrow> bounds \<Rightarrow> nat \<Rightarrow> slot \<Rightarrow> nat list
     \<Rightarrow> slot \<times> nat list" where
  "merge_slot dec fr region i s calls =
     (let s1 = set_bounds s (Some region)
      in if state s1 = VALID then (s1, calls)
         else (apply_outcome s1 (dec fr region), calls @ [i]))"

text \<open>The slots in ascending order of index, from index \<open>i\<close> on.\<close>

fun merge_slots ::
  "('f \<Rightarrow> bounds \<Rightarrow> decode_outcome) \<Rightarrow> 'f \<Rightarrow> (nat \<Rightarrow> bounds) \<Rightarrow> nat \<Rightarrow> slot list \<Rightarrow> nat list
     \<Rightarrow> slot list \<times> nat list" where
  "merge_slots dec fr regions i [] calls = ([], calls)"
| "merge_slots dec fr regions i (s # ss) calls =
     (let (s', calls') = merge_slot dec fr (regions i) i s calls;
          (ss', calls'') = merge_slots dec fr regions (Suc i) ss calls'
      in (s' # ss', calls''))"

text \<open>
  The engine on one frame: a failed alignment changes no slot and invokes no decode
  (step 6); otherwise \<^verbatim>\<open>new_frame\<close> is called on every slot (step 1) and the slots
  are merged.
\<close>

definition merge_engine ::
  "'f capabilities \<Rightarrow> 'f \<Rightarrow> plate_snapshot \<Rightarrow> nat list \<Rightarrow> plate_snapshot \<times> nat list" where
  "merge_engine cap fr prev calls =
     (case align cap fr of
        None \<Rightarrow> (prev\<lparr>alignmentOk := False\<rparr>, calls)
      | Some regions \<Rightarrow>
          (let (ss, calls') = merge_slots (decode cap) fr regions 0 (map new_frame (slots prev)) calls
           in (\<lparr>slots = ss, alignmentOk = True\<rparr>, calls')))"

definition fresh_snapshot :: "nat \<Rightarrow> plate_snapshot" where
  "fresh_snapshot N = \<lparr>slots = map (\<lambda>i. Slot_init (int i)) [0..<N], alignmentOk = False\<rparr>"

definition numSlots :: "plate_snapshot \<Rightarrow> int" where
  "numSlots p = int (length (slots p))"

definition numValid :: "plate_snapshot \<Rightarrow> int" where
  "numValid p = int (length (filter (\<lambda>s. state s = VALID) (slots p)))"

definition fullyValid :: "plate_snapshot \<Rightarrow> bool" where
  "fullyValid p = list_all (\<lambda>s. state s = VALID) (slots p)"

definition hasSlotsInCommon :: "plate_snapshot \<Rightarrow> plate_snapshot \<Rightarrow> bool" where
  "hasSlotsInCommon remembered candidate =
     list_all (\<lambda>i. state (slots candidate ! i) = VALID \<longrightarrow>
                 i < length (slots remembered) \<and>
                 barcode_data (slots remembered ! i) = barcode_data (slots candidate ! i))
       [0..<length (slots candidate)]"

text \<open>
  The specification does not say what the second result of the continuous scan is; it
  is taken to be that some slot was updated in this frame.
\<close>

definition updatedThisFrame :: "plate_snapshot \<Rightarrow> bool" where
  "updatedThisFrame p = list_ex barcode_this_frame (slots p)"

text \<open>
  The scanner and the plate operations that the worker of continuous.py is given: the
  first scan merges into a fresh snapshot of \<open>N\<close> slots, the continuous scan into the
  previous plate. The world outside the worker is the list of decode invocations.
\<close>

definition spec_scanner :: "nat \<Rightarrow> 'f capabilities \<Rightarrow> ('f, plate_snapshot, nat list) scanner" where
  "spec_scanner N cap =
     \<lparr> ScanImage = (\<lambda>fr calls. merge_engine cap fr (fresh_snapshot N) calls),
       ScanImageContinuous = (\<lambda>fr prev calls.
          (let (p, calls') = merge_engine cap fr prev calls in ((p, updatedThisFrame p), calls'))) \<rparr>"

definition spec_ops :: "plate_snapshot plate_ops" where
  "spec_ops =
     \<lparr> scan_ok = alignmentOk, has_slots_in_common = hasSlotsInCommon,
       is_full_valid = fullyValid, num_slots = numSlots, num_valid_barcodes = numValid \<rparr>"

text \<open>Slot \<open>i\<close> of the plate exists, is Valid and stores the barcode \<open>b\<close>.\<close>

definition keeps :: "plate_snapshot \<Rightarrow> nat \<Rightarrow> barcode option \<Rightarrow> bool" where
  "keeps p i b \<longleftrightarrow> i < length (slots p) \<and> s_barcode (slots p ! i) = b \<and> state (slots p ! i) = VALID"

section \<open>Sample runs\<close>

text \<open>
  Four passes of a capture loop started at time 0: a frame is put at 0.1; at 0.15 the
  interval has not elapsed; at 0.2 the queue is first seen full, then empty, and a second
  frame is put.
\<close>

definition sample_ticks :: "nat tick list" where
  "sample_ticks =
     [\<lparr>kill_queue_empty = True, cap_read = Some 1, qsize = 0,
        t_guard = 1/10, t_put = 1/10, t_stamp = 1/10, exit_key = False\<rparr>,
      \<lparr>kill_queue_empty = True, cap_read = Some 2, qsize = 0,
        t_guard = 3/20, t_put = 3/20, t_stamp = 3/20, exit_key = False\<rparr>,
      \<lparr>kill_queue_empty = True, cap_read = Some 3, qsize = 1,
        t_guard = 1/5, t_put = 1/5, t_stamp = 1/5, exit_key = False\<rparr>,
      \<lparr>kill_queue_empty = True, cap_read = Some 4, qsize = 0,
        t_guard = 1/5, t_put = 1/5, t_stamp = 1/5, exit_key = False\<rparr>]"

text \<open>
  Geometry alignment that fails on frame 0 and succeeds on every other frame, with a
  decoder that reads the barcode A in frame 1 and nothing in later frames; a plate of two
  slots whose slot 0 is Valid; a scan worker that remembers this plate; and scan results
  of camera_scanner.py: a failure on frame 0, and on every other frame a duplicate of the
  last reported plate. The full plate is the plate of two slots that the merge engine
  reads from frame 1, starting from nothing.
\<close>

definition sample_cap :: "nat capabilities" where
  "sample_cap =
     \<lparr> align = (\<lambda>fr. if fr = 0 then None else Some (\<lambda>i. ((0, 0), 1))),
       decode = (\<lambda>fr region. if fr = 1 then Decoded_Valid ''A'' else Decoded_NoResult) \<rparr>"

definition sample_valid_plate :: plate_snapshot where
  "sample_valid_plate =
     \<lparr> slots = [set_barcode (Slot_init 0)
                   (Some \<lparr>is_unreadable = False, is_valid = True, data = ''A''\<rparr>),
                Slot_init 1],
       alignmentOk = True \<rparr>"

definition sample_state :: "(nat, plate_snapshot, nat list) scan_state" where
  "sample_state = (scanner_init [])\<lparr>last_plate := Some sample_valid_plate\<rparr>"

definition sample_full_plate :: plate_snapshot where
  "sample_full_plate =
     \<lparr> slots =
         [\<lparr> s_number = 0, s_bounds = Some ((0, 0), 1), s_barcode_position = None,
             s_barcode = Some \<lparr>is_unreadable = False, is_valid = True, data = ''A''\<rparr>,
             s_empty = False, s_total_frames = 1, s_barcode_set_this_frame = True \<rparr>,
          \<lparr> s_number = 1, s_bounds = Some ((0, 0), 1), s_barcode_position = None,
             s_barcode = Some \<lparr>is_unreadable = False, is_valid = True, data = ''A''\<rparr>,
             s_empty = False, s_total_frames = 1, s_barcode_set_this_frame = True \<rparr>],
       alignmentOk = True \<rparr>"

definition sample_duplicate :: "plate_snapshot scan_result" where
  "sample_duplicate =
     \<lparr> success = True, already_scanned = True, any_valid_barcodes = True,
       any_new_barcodes = False, plate = sample_full_plate, error = [] \<rparr>"

definition sample_failure :: "plate_snapshot scan_result" where
  "sample_failure =
     \<lparr> success = False, already_scanned = False, any_valid_barcodes = False,
       any_new_barcodes = False, plate = fresh_snapshot 2, error = ''No plate'' \<rparr>"

definition sample_scan_next_frame :: "nat \<Rightarrow> unit \<Rightarrow> plate_snapshot scan_result \<times> unit" where
  "sample_scan_next_frame fr w = (if fr = 0 then sample_failure else sample_duplicate, w)"

definition sample_options :: options where
  "sample_options = \<lparr>console_frame = False, scan_beep = True\<rparr>"

text \<open>
  The scan worker of continuous.py after frame 1, with the merge engine as its scanner:
  it has decoded both slots, has reported the full plate and remembers it. The plate
  that the merge engine makes of the full plate on frame 2 has the same barcodes.
\<close>

definition sample_reported :: "(nat, plate_snapshot, nat list) scan_state" where
  "sample_reported =
     \<lparr> last_plate = Some sample_full_plate, last_full_plate = Some sample_full_plate,
       frame_contains_barcodes = False, overlay_queue = [],
       result_queue = [(sample_full_plate, 1)], beeps = [], ext = [0, 1] \<rparr>"

definition sample_rescanned_plate :: plate_snapshot where
  "sample_rescanned_plate =
     \<lparr> slots =
         [\<lparr> s_number = 0, s_bounds = Some ((0, 0), 1), s_barcode_position = None,
             s_barcode = Some \<lparr>is_unreadable = False, is_valid = True, data = ''A''\<rparr>,
             s_empty = False, s_total_frames = 2, s_barcode_set_this_frame = False \<rparr>,
          \<lparr> s_number = 1, s_bounds = Some ((0, 0), 1), s_barcode_position = None,
             s_barcode = Some \<lparr>is_unreadable = False, is_valid = True, data = ''A''\<rparr>,
             s_empty = False, s_total_frames = 2, s_barcode_set_this_frame = False \<rparr>],
       alignmentOk = True \<rparr>"

text \<open>The sample passes followed by a pass at 0.3 in which the exit key is pressed.\<close>

definition sample_exit_ticks :: "nat tick list" where
  "sample_exit_ticks = sample_ticks @
     [\<lparr>kill_queue_empty = True, cap_read = Some 5, qsize = 0,
        t_guard = 3/10, t_put = 3/10, t_stamp = 3/10, exit_key = True\<rparr>]"


section \<open>Properties of slots\<close>

lemmas status_defs = NO_RESULT_def EMPTY_def UNREADABLE_def VALID_def

text \<open>
  Claim C3, as stated: calling \<^verbatim>\<open>set_barcode\<close> with \<^verbatim>\<open>None\<close> leaves the status
  of the slot unchanged. The code stores the argument before it tests it, so the call
  erases the stored barcode: a fresh slot that was given a valid barcode is Valid, and
  NoResult after \<^verbatim>\<open>set_barcode(None)\<close>.
\<close>

theorem set_barcode_none_counterexample:
  "state (set_barcode (set_barcode (Slot_init 1)
            (Some \<lparr>is_unreadable = False, is_valid = True, data = ''A''\<rparr>)) None)
   \<noteq> state (set_barcode (Slot_init 1)
            (Some \<lparr>is_unreadable = False, is_valid = True, data = ''A''\<rparr>))"
  by (simp add: state_def set_barcode_def Slot_init_def status_defs)

text \<open>
  Claim C3, amended: \<^verbatim>\<open>set_barcode(None)\<close> clears the stored barcode and changes no
  other attribute (the empty flag and the per-frame flag keep their values); afterwards
  the status is Empty if the empty flag is set and NoResult otherwise, so the status is
  unchanged exactly when it was Empty or NoResult before the call.
\<close>

theorem set_barcode_none_effect:
  "s_barcode (set_barcode s None) = None \<and>
   s_empty (set_barcode s None) = s_empty s \<and>
   barcode_this_frame (set_barcode s None) = barcode_this_frame s \<and>
   set_barcode s None = s\<lparr>s_barcode := None\<rparr> \<and>
   state (set_barcode s None) = (if s_empty s then EMPTY else NO_RESULT) \<and>
   (state (set_barcode s None) = state s \<longleftrightarrow> state s = EMPTY \<or> state s = NO_RESULT)"
  by (auto simp add: state_def set_barcode_def barcode_this_frame_def status_defs
      split: option.splits)

text \<open>
  Claim C4: \<^verbatim>\<open>state()\<close> only reads the slot, and applies the precedence Empty, then
  Unreadable if a barcode is present and unreadable, then Valid if a barcode is present
  and valid, then NoResult. In particular a set empty flag gives Empty whatever barcode
  is stored. This holds of every slot value, hence of every reachable one.
\<close>

theorem state_precedence:
  "(s_empty s \<longrightarrow> state s = EMPTY) \<and>
   (\<not> s_empty s \<and> s_barcode s = Some b \<and> is_unreadable b \<longrightarrow> state s = UNREADABLE) \<and>
   (\<not> s_empty s \<and> s_barcode s = Some b \<and> \<not> is_unreadable b \<and> is_valid b
      \<longrightarrow> state s = VALID) \<and>
   (\<not> s_empty s \<and>
      (s_barcode s = None \<or> (s_barcode s = Some b \<and> \<not> is_unreadable b \<and> \<not> is_valid b))
      \<longrightarrow> state s = NO_RESULT)"
  by (auto simp add: state_def)

theorem state_precedence_witness:
  "s_empty ((Slot_init 1)\<lparr>s_barcode := Some \<lparr>is_unreadable = False, is_valid = True, data = ''A''\<rparr>,
                          s_empty := True\<rparr>) \<and>
   state ((Slot_init 1)\<lparr>s_barcode := Some \<lparr>is_unreadable = False, is_valid = True, data = ''A''\<rparr>,
                        s_empty := True\<rparr>) = EMPTY \<and>
   state (set_barcode (Slot_init 1) (Some \<lparr>is_unreadable = True, is_valid = True, data = ''A''\<rparr>))
     = UNREADABLE \<and>
   state (set_barcode (Slot_init 1) (Some \<lparr>is_unreadable = False, is_valid = True, data = ''A''\<rparr>))
     = VALID \<and>
   state (set_barcode (Slot_init 1) (Some \<lparr>is_unreadable = False, is_valid = False, data = ''A''\<rparr>))
     = NO_RESULT"
  using
    state_precedence [of "(Slot_init 1)\<lparr>s_barcode :=
        Some \<lparr>is_unreadable = False, is_valid = True, data = ''A''\<rparr>, s_empty := True\<rparr>"]
    state_precedence [of "set_barcode (Slot_init 1)
        (Some \<lparr>is_unreadable = True, is_valid = True, data = ''A''\<rparr>)"
        "\<lparr>is_unreadable = True, is_valid = True, data = ''A''\<rparr>"]
    state_precedence [of "set_barcode (Slot_init 1)
        (Some \<lparr>is_unreadable = False, is_valid = True, data = ''A''\<rparr>)"
        "\<lparr>is_unreadable = False, is_valid = True, data = ''A''\<rparr>"]
    state_precedence [of "set_barcode (Slot_init 1)
        (Some \<lparr>is_unreadable = False, is_valid = False, data = ''A''\<rparr>)"
        "\<lparr>is_unreadable = False, is_valid = False, data = ''A''\<rparr>"]
  by (simp add: set_barcode_def Slot_init_def)

text \<open>
  Claim C8: \<^verbatim>\<open>new_frame()\<close> sets the per-frame flag to false, adds one to the count
  of frames and changes nothing else: number, bounds, barcode position, stored barcode,
  empty flag, and with them the status and the barcode data, are as before.
\<close>

theorem new_frame_effect:
  "barcode_this_frame (new_frame s) = False \<and>
   s_total_frames (new_frame s) = s_total_frames s + 1 \<and>
   number (new_frame s) = number s \<and>
   bounds (new_frame s) = bounds s \<and>
   barcode_position (new_frame s) = barcode_position s \<and>
   s_barcode (new_frame s) = s_barcode s \<and>
   s_empty (new_frame s) = s_empty s \<and>
   state (new_frame s) = state s \<and>
   barcode_data (new_frame s) = barcode_data s \<and>
   new_frame s = s\<lparr>s_total_frames := s_total_frames s + 1, s_barcode_set_this_frame := False\<rparr>"
  by (simp add: new_frame_def barcode_this_frame_def number_def bounds_def
      barcode_position_def state_def barcode_data_def)

text \<open>
  Claim C10: \<^verbatim>\<open>barcode_data()\<close> always returns a string: the symbol for an empty
  slot when the empty flag is set (whatever barcode is stored), the data of the stored
  barcode when one is present and the slot is not empty, and the symbol for a barcode
  that was not found otherwise.
\<close>

theorem barcode_data_total:
  "(s_empty s \<longrightarrow> barcode_data s = ''----EMPTY----'') \<and>
   (\<not> s_empty s \<and> s_barcode s = Some b \<longrightarrow> barcode_data s = data b) \<and>
   (\<not> s_empty s \<and> s_barcode s = None \<longrightarrow> barcode_data s = ''-CANT-FIND-'')"
  by (simp add: barcode_data_def EMPTY_SLOT_SYMBOL_def NOT_FOUND_SLOT_SYMBOL_def)

theorem barcode_data_total_witness:
  "s_empty (set_empty (Slot_init 2)) \<and>
   barcode_data (set_empty (Slot_init 2)) = ''----EMPTY----'' \<and>
   barcode_data (set_barcode (Slot_init 2)
       (Some \<lparr>is_unreadable = False, is_valid = True, data = ''DF150E0101''\<rparr>)) = ''DF150E0101'' \<and>
   \<not> s_empty (Slot_init 2) \<and> s_barcode (Slot_init 2) = None \<and>
   barcode_data (Slot_init 2) = ''-CANT-FIND-''"
  using
    barcode_data_total [of "set_empty (Slot_init 2)"]
    barcode_data_total [of "set_barcode (Slot_init 2)
        (Some \<lparr>is_unreadable = False, is_valid = True, data = ''DF150E0101''\<rparr>)"
        "\<lparr>is_unreadable = False, is_valid = True, data = ''DF150E0101''\<rparr>"]
    barcode_data_total [of "Slot_init 2"]
  by (simp add: set_empty_def set_barcode_def Slot_init_def)

section \<open>Properties of the beep frequency\<close>

lemma frequency_continuous_some_valid:
  "0 < v \<Longrightarrow> v \<le> n \<Longrightarrow>
   frequency_continuous n v = Inr 37"
  by (simp add: frequency_continuous_def)

text \<open>
  The floating-point arithmetic of camera_scanner.py can fall one short of the exact
  value: with 100 slots and 31 valid barcodes, 69/100 rounds down, its product with
  10000 rounds to the float just below 6900, and the frequency is 6936 where exact
  arithmetic gives 6937.
\<close>

lemma frequency_camera_rounding:
  "frequency_camera 100 31 = Inr 6936 \<and> frequency_spec 100 31 = 6937"
  by code_simp

text \<open>
  Claim C9 says that the two beep computations give the same frequency,
  \<open>\<lfloor>10000 * (numSlots - numValid) / numSlots\<rfloor> + 37\<close>. On a plate of 16 slots
  with 8 valid barcodes camera_scanner.py gives 5037, as the claim says, and
  continuous.py gives 37: its division is the integer division of Python 2, which is 0
  as soon as one barcode is valid.
\<close>

theorem beep_frequencies_differ:
  "frequency_continuous 16 8 = Inr 37 \<and> frequency_camera 16 8 = Inr 5037 \<and>
   frequency_spec 16 8 = 5037"
  by code_simp

section \<open>Properties of the capture worker\<close>

lemma put_times_append: "put_times (ps @ qs) = put_times ps @ put_times qs"
  by (induction ps rule: put_times.induct) auto

lemma INTERVAL_pos: "0 < INTERVAL"
  by (simp add: INTERVAL_def MAX_SAMPLE_RATE_def)

lemma separated_window_bound:
  "separated ts \<Longrightarrow> \<forall>t\<in>set ts. a \<le> t \<and> t < h \<Longrightarrow> a \<le> h \<Longrightarrow>
   int (length ts) \<le> \<lceil>(h - a) / INTERVAL\<rceil>"
proof (induction ts arbitrary: a)
  case Nil
  have "0 \<le> (h - a) / INTERVAL" using Nil INTERVAL_pos by simp
  then show ?case by simp
next
  case (Cons x xs)
  have sep: "separated xs" and far: "\<forall>y\<in>set xs. x + INTERVAL \<le> y"
    using Cons.prems(1) by (simp_all add: separated_def)
  have xin: "a \<le> x" "x < h" using Cons.prems(2) by simp_all
  show ?case
  proof (cases xs)
    case Nil
    have "0 < (h - a) / INTERVAL" using xin INTERVAL_pos by simp
    then have "1 \<le> \<lceil>(h - a) / INTERVAL\<rceil>" by linarith
    then show ?thesis using Nil by simp
  next
    case (Cons y ys)
    then have "x + INTERVAL \<le> y" "y < h" using far Cons.prems(2) by simp_all
    then have le: "x + INTERVAL \<le> h" by simp
    have "\<forall>t\<in>set xs. x + INTERVAL \<le> t \<and> t < h" using far Cons.prems(2) by simp
    from Cons.IH [OF sep this le]
    have "int (length xs) \<le> \<lceil>(h - (x + INTERVAL)) / INTERVAL\<rceil>" .
    also have "(h - (x + INTERVAL)) / INTERVAL = (h - x) / INTERVAL - 1"
      using INTERVAL_pos by (simp add: field_simps)
    also have "\<lceil>(h - x) / INTERVAL - 1\<rceil> = \<lceil>(h - x) / INTERVAL\<rceil> - 1" by simp
    also have "\<lceil>(h - x) / INTERVAL\<rceil> \<le> \<lceil>(h - a) / INTERVAL\<rceil>"
      using xin INTERVAL_pos by (intro ceiling_mono divide_right_mono) simp_all
    finally show ?thesis by simp
  qed
qed


lemma sorted_readings_Cons:
  "sorted (t0 # clock_readings (k # ks)) \<Longrightarrow>
   t0 \<le> t_guard k \<and> t_guard k \<le> t_put k \<and> t_put k \<le> t_stamp k \<and>
   sorted (t_stamp k # clock_readings ks) \<and> sorted (t0 # clock_readings ks)"
  by (auto simp add: clock_readings_def)

lemma enqueue_frame_cases:
  "enqueue_frame last_time k fr = (t_stamp k, [PutFrame (t_put k) fr]) \<and>
     qsize k < Q_LIMIT \<and> INTERVAL \<le> t_guard k - last_time
   \<or> enqueue_frame last_time k fr = (last_time, []) \<and>
     \<not> (qsize k < Q_LIMIT \<and> INTERVAL \<le> t_guard k - last_time)"
  by (simp add: enqueue_frame_def)

lemma separated_Cons:
  "separated (x # xs) \<longleftrightarrow> (\<forall>y\<in>set xs. x + INTERVAL \<le> y) \<and> separated xs"
  by (simp add: separated_def)

lemma separated_Nil: "separated []"
  by (simp add: separated_def)

lemma cs_capture_separated:
  "sorted (t0 # clock_readings ks) \<Longrightarrow>
   separated (put_times (snd (cs_capture_worker t0 ks))) \<and>
   (\<forall>t\<in>set (put_times (snd (cs_capture_worker t0 ks))). t0 + INTERVAL \<le> t)"
proof (induction ks arbitrary: t0)
  case Nil
  then show ?case by (simp add: separated_Nil)
next
  case (Cons k ks)
  note rd = sorted_readings_Cons [OF Cons.prems]
  show ?case
  proof (cases "kill_queue_empty k")
    case False
    then show ?thesis by (simp add: separated_Nil)
  next
    case alive: True
    show ?thesis
    proof (cases "cap_read k")
      case None
      then show ?thesis using alive by (simp add: separated_Nil)
    next
      case (Some fr)
      from enqueue_frame_cases [of t0 k fr] show ?thesis
      proof
        assume e: "enqueue_frame t0 k fr = (t_stamp k, [PutFrame (t_put k) fr]) \<and>
                   qsize k < Q_LIMIT \<and> INTERVAL \<le> t_guard k - t0"
        have ih: "separated (put_times (snd (cs_capture_worker (t_stamp k) ks))) \<and>
              (\<forall>t\<in>set (put_times (snd (cs_capture_worker (t_stamp k) ks))). t_stamp k + INTERVAL \<le> t)"
          using Cons.IH rd by blast
        have "t0 + INTERVAL \<le> t_put k" using e rd by linarith
        moreover have "\<forall>t\<in>set (put_times (snd (cs_capture_worker (t_stamp k) ks))).
                         t_put k + INTERVAL \<le> t \<and> t0 + INTERVAL \<le> t"
          using ih rd by fastforce
        ultimately show ?thesis using alive Some e ih
          by (auto simp add: separated_Cons separated_Nil put_times_append split: prod.splits)
      next
        assume e: "enqueue_frame t0 k fr = (t0, []) \<and>
                   \<not> (qsize k < Q_LIMIT \<and> INTERVAL \<le> t_guard k - t0)"
        have ih: "separated (put_times (snd (cs_capture_worker t0 ks))) \<and>
              (\<forall>t\<in>set (put_times (snd (cs_capture_worker t0 ks))). t0 + INTERVAL \<le> t)"
          using Cons.IH rd by blast
        show ?thesis using alive Some e ih
          by (auto simp add: separated_Nil split: prod.splits)
      qed
    qed
  qed
qed

lemma enqueue_frame_kill_irrelevant:
  "enqueue_frame t0 (k\<lparr>kill_queue_empty := True\<rparr>) fr = enqueue_frame t0 k fr"
  by (simp add: enqueue_frame_def)

lemma capture_worker_as_cs:
  "capture_worker t0 ks = cs_capture_worker t0 (map (\<lambda>k. k\<lparr>kill_queue_empty := True\<rparr>) ks)"
  by (induction ks arbitrary: t0)
    (simp_all add: enqueue_frame_kill_irrelevant split: option.splits prod.splits)

lemma clock_readings_kill_irrelevant:
  "clock_readings (map (\<lambda>k. k\<lparr>kill_queue_empty := True\<rparr>) ks) = clock_readings ks"
  by (simp add: clock_readings_def comp_def)

lemma window_bound:
  assumes "separated (put_times ps)" "0 \<le> T"
  shows "int (enqueued_in_window a T ps) \<le> \<lceil>T / INTERVAL\<rceil>"
proof -
  let ?ts = "filter (\<lambda>t. a \<le> t \<and> t < a + T) (put_times ps)"
  have "separated ?ts" using assms(1) by (simp add: separated_def sorted_wrt_filter)
  moreover have "\<forall>t\<in>set ?ts. a \<le> t \<and> t < a + T" by simp
  moreover have "a \<le> a + T" using assms(2) by simp
  ultimately have "int (length ?ts) \<le> \<lceil>(a + T - a) / INTERVAL\<rceil>"
    by (rule separated_window_bound)
  then show ?thesis by (simp add: enqueued_in_window_def)
qed

text \<open>
  Claim C5: in every pass of the capture loop a frame is put on the task queue only if
  the queue is seen to hold fewer than one frame and at least a tenth of a second has
  passed since \<^verbatim>\<open>last_time\<close>; hence, when the clock values of a run never
  decrease, the frames put in any window of \<open>T\<close> seconds (start included, end
  excluded) number at most \<open>\<lceil>T / INTERVAL\<rceil>\<close>, in both capture workers and
  however long the run is.
\<close>

theorem capture_load_shedding:
  "Q_LIMIT = 1 \<and> INTERVAL = 1 / 10 \<and>
   snd (enqueue_frame last_time k fr) =
     (if qsize k < 1 \<and> 1 / 10 \<le> t_guard k - last_time then [PutFrame (t_put k) fr] else []) \<and>
   (sorted (t0 # clock_readings ks) \<and> 0 \<le> T \<longrightarrow>
      int (enqueued_in_window a T (snd (cs_capture_worker t0 ks))) \<le> \<lceil>T / INTERVAL\<rceil> \<and>
      int (enqueued_in_window a T (snd (capture_worker t0 ks))) \<le> \<lceil>T / INTERVAL\<rceil>)"
proof -
  have c: "Q_LIMIT = 1" "INTERVAL = 1 / 10"
    by (simp_all add: Q_LIMIT_def INTERVAL_def MAX_SAMPLE_RATE_def)
  have g: "snd (enqueue_frame last_time k fr) =
     (if qsize k < 1 \<and> 1 / 10 \<le> t_guard k - last_time then [PutFrame (t_put k) fr] else [])"
    by (simp add: enqueue_frame_def c)
  have w: "int (enqueued_in_window a T (snd (cs_capture_worker t0 ks))) \<le> \<lceil>T / INTERVAL\<rceil> \<and>
      int (enqueued_in_window a T (snd (capture_worker t0 ks))) \<le> \<lceil>T / INTERVAL\<rceil>"
    if h: "sorted (t0 # clock_readings ks)" "0 \<le> T"
  proof -
    have "separated (put_times (snd (cs_capture_worker t0 ks)))"
      using cs_capture_separated [OF h(1)] by simp
    moreover have "separated (put_times (snd (capture_worker t0 ks)))"
      using cs_capture_separated [of t0 "map (\<lambda>k. k\<lparr>kill_queue_empty := True\<rparr>) ks"] h(1)
      by (simp add: capture_worker_as_cs clock_readings_kill_irrelevant)
    ultimately show ?thesis using window_bound h(2) by blast
  qed
  show ?thesis using c g w by blast
qed

theorem capture_load_shedding_witness:
  "sorted (0 # clock_readings sample_ticks) \<and> (0::rat) \<le> 1/5 \<and>
   enqueued_in_window (1/10) (1/5) (snd (cs_capture_worker 0 sample_ticks)) = 2 \<and>
   int (enqueued_in_window (1/10) (1/5) (snd (cs_capture_worker 0 sample_ticks)))
     \<le> \<lceil>(1/5) / INTERVAL\<rceil>"
  using capture_load_shedding [of 0 "hd sample_ticks" 1 0 sample_ticks "1/5" "1/10"]
  by (simp add: sample_ticks_def clock_readings_def enqueued_in_window_def enqueue_frame_def
      Q_LIMIT_def)

section \<open>Properties of the scan workers\<close>

text \<open>
  Claim C7: a frame whose alignment fails leaves what the scan worker remembers as it
  was and puts no result. In continuous.py the pass changes nothing but
  \<^verbatim>\<open>frame_contains_barcodes\<close> and the world of the scanner: \<^verbatim>\<open>last_plate\<close>,
  \<^verbatim>\<open>last_full_plate\<close> and the queues are as before. In camera_scanner.py
  \<^verbatim>\<open>last_plate_time\<close> and the result queue are as before, and the error overlay is
  put only when more than \<^verbatim>\<open>NO_PUCK_TIME\<close>, 2 seconds, have passed since the last
  plate.
\<close>

theorem failed_alignment_keeps_state:
  "(scan_frame sc st fr = ((p, fcb), w) \<and> \<not> scan_ok ops p \<longrightarrow>
      scanner_frame sc ops fr st = Inr (st\<lparr>frame_contains_barcodes := fcb, ext := w\<rparr>)) \<and>
   (scan_next_frame cfr (cs_ext cst) = (r, cw) \<and> \<not> success r \<longrightarrow>
      cs_scanner_frame scan_next_frame cops opts (cfr, now) cst =
        Inr (cst\<lparr>cs_ext := cw,
                 cs_overlay_queue := cs_overlay_queue cst @
                   (if now - last_plate_time cst > 2 then [TextOverlay (error r) Red] else [])\<rparr>))"
  by (simp add: scanner_frame_def handle_plate_def cs_scanner_frame_def cs_handle_result_def
      NO_PUCK_TIME_def)

theorem failed_alignment_keeps_state_witness:
  "scan_frame (spec_scanner 2 sample_cap) sample_state 0
     = ((sample_valid_plate\<lparr>alignmentOk := False\<rparr>, True), []) \<and>
   \<not> scan_ok spec_ops (sample_valid_plate\<lparr>alignmentOk := False\<rparr>) \<and>
   scanner_frame (spec_scanner 2 sample_cap) spec_ops 0 sample_state
     = Inr (sample_state\<lparr>frame_contains_barcodes := True\<rparr>) \<and>
   sample_scan_next_frame 0 () = (sample_failure, ()) \<and> \<not> success sample_failure \<and>
   cs_scanner_frame sample_scan_next_frame spec_ops sample_options (0, 3) (cs_scanner_init 0 ())
     = Inr ((cs_scanner_init 0 ())\<lparr>cs_overlay_queue := [TextOverlay ''No plate'' Red]\<rparr>)"
proof -
  have h1: "scan_frame (spec_scanner 2 sample_cap) sample_state 0
     = ((sample_valid_plate\<lparr>alignmentOk := False\<rparr>, True), [])"
    by (simp add: scan_frame_def spec_scanner_def sample_state_def scanner_init_def
        merge_engine_def sample_cap_def updatedThisFrame_def sample_valid_plate_def
        barcode_this_frame_def set_barcode_def Slot_init_def)
  have h2: "\<not> scan_ok spec_ops (sample_valid_plate\<lparr>alignmentOk := False\<rparr>)"
    by (simp add: spec_ops_def)
  have h3: "sample_scan_next_frame 0 (cs_ext (cs_scanner_init 0 ())) = (sample_failure, ())"
    by (simp add: sample_scan_next_frame_def)
  have h4: "\<not> success sample_failure" by (simp add: sample_failure_def)
  show ?thesis
    using failed_alignment_keeps_state [of "spec_scanner 2 sample_cap" sample_state 0
        "sample_valid_plate\<lparr>alignmentOk := False\<rparr>" True "[]" spec_ops
        sample_scan_next_frame 0 "cs_scanner_init 0 ()" sample_failure "()" spec_ops
        sample_options 3] h1 h2 h3 h4
    by (simp add: sample_state_def scanner_init_def cs_scanner_init_def sample_failure_def)
qed

lemmas sample_defs = sample_cap_def sample_valid_plate_def sample_state_def
  sample_full_plate_def sample_rescanned_plate_def sample_reported_def scanner_init_def
  Slot_init_def

lemmas slot_defs = set_barcode_def set_empty_def set_no_result_def set_bounds_def new_frame_def
  state_def barcode_data_def barcode_this_frame_def status_defs

lemmas merge_defs = spec_scanner_def spec_ops_def merge_engine_def merge_slot_def
  apply_outcome_def updatedThisFrame_def hasSlotsInCommon_def fullyValid_def numSlots_def
  numValid_def fresh_snapshot_def







section \<open>The termination protocol\<close>

lemma cs_capture_exit:
  "fst (cs_capture_worker t0 ks) = Exited \<Longrightarrow>
   \<exists>frames. map payload (snd (cs_capture_worker t0 ks)) = map Some frames @ [None]"
proof (induction ks arbitrary: t0)
  case Nil
  then show ?case by simp
next
  case (Cons k ks)
  show ?case
  proof (cases "kill_queue_empty k")
    case False
    then show ?thesis by simp
  next
    case alive: True
    show ?thesis
    proof (cases "cap_read k")
      case None
      then show ?thesis using alive Cons.prems by simp
    next
      case (Some fr)
      obtain l' puts where e: "enqueue_frame t0 k fr = (l', puts)"
        by (cases "enqueue_frame t0 k fr")
      have "puts = [] \<or> puts = [PutFrame (t_put k) fr]"
        using e by (auto simp add: enqueue_frame_def split: if_splits)
      then have "map payload puts = map Some [] \<or> map payload puts = map Some [fr]"
        by auto
      then obtain fs where fs: "map payload puts = map Some fs"
        by blast
      show ?thesis
      proof (cases "exit_key k")
        case True
        then show ?thesis using alive Some e fs by auto
      next
        case False
        then have "fst (cs_capture_worker l' ks) = Exited"
          using Cons.prems alive Some e by (simp add: case_prod_beta)
        from Cons.IH [OF this] obtain gs where
          "map payload (snd (cs_capture_worker l' ks)) = map Some gs @ [None]" by blast
        then have "map payload (snd (cs_capture_worker t0 (k # ks))) = map Some (fs @ gs) @ [None]"
          using False alive Some e fs by (simp add: case_prod_beta)
        then show ?thesis by blast
      qed
    qed
  qed
qed

lemma scanner_loop_returns:
  "None \<in> set q \<Longrightarrow> scanner_loop sc ops st q \<noteq> None"
proof (induction q arbitrary: st)
  case Nil
  then show ?case by simp
next
  case (Cons x q)
  show ?case
  proof (cases x)
    case None
    then show ?thesis by simp
  next
    case (Some fr)
    then have "None \<in> set q" using Cons.prems by simp
    then show ?thesis using Cons.IH Some by (simp split: sum.splits)
  qed
qed

lemma cs_scanner_loop_returns:
  "None \<in> set q \<Longrightarrow> cs_scanner_loop scan_next_frame ops opts st q \<noteq> None"
proof (induction q arbitrary: st)
  case Nil
  then show ?case by simp
next
  case (Cons x q)
  show ?case
  proof (cases x)
    case None
    then show ?thesis by simp
  next
    case (Some item)
    then have "None \<in> set q" using Cons.prems by simp
    then show ?thesis using Cons.IH Some by (simp split: sum.splits)
  qed
qed

text \<open>
  Claim C6: the sentinel on the task queue is \<^verbatim>\<open>None\<close>, which no frame put by a
  capture worker is; a scan worker that takes the sentinel from the queue returns with
  its state as it was, the scanner not called and the rest of the queue untouched;
  \<^verbatim>\<open>kill()\<close> puts the sentinel on the task queue (and makes the kill queue
  non-empty, on which the capture worker leaves its loop); a capture worker that leaves
  its loop has put frames and then the sentinel; and a scan worker whose queue holds a
  sentinel does not wait for ever.
\<close>

theorem termination_protocol:
  "payload PutSentinel = None \<and> payload (PutFrame t fr) \<noteq> None \<and>
   scanner_loop sc ops st (None # q) = Some (Inr (st, q)) \<and>
   cs_scanner_loop scan_next_frame cops opts cst (None # cq) = Some (Inr (cst, cq)) \<and>
   task_queue (kill c) = task_queue c @ [None] \<and> kill_queue (kill c) \<noteq> [] \<and>
   cs_capture_worker t0 (k\<lparr>kill_queue_empty := False\<rparr> # ks) = (Exited, [PutSentinel]) \<and>
   (fst (cs_capture_worker t0 ks) = Exited \<longrightarrow>
      (\<exists>frames. map payload (snd (cs_capture_worker t0 ks)) = map Some frames @ [None])) \<and>
   (fst (capture_worker t0 ks) = Exited \<longrightarrow>
      (\<exists>frames. map payload (snd (capture_worker t0 ks)) = map Some frames @ [None])) \<and>
   (None \<in> set q \<longrightarrow> scanner_loop sc ops st q \<noteq> None) \<and>
   (None \<in> set cq \<longrightarrow> cs_scanner_loop scan_next_frame cops opts cst cq \<noteq> None)"
proof -
  have "fst (capture_worker t0 ks) = Exited \<longrightarrow>
      (\<exists>frames. map payload (snd (capture_worker t0 ks)) = map Some frames @ [None])"
    using cs_capture_exit [of t0 "map (\<lambda>k. k\<lparr>kill_queue_empty := True\<rparr>) ks"]
    by (simp add: capture_worker_as_cs)
  then show ?thesis
    using cs_capture_exit [of t0 ks] scanner_loop_returns [of q sc ops st]
      cs_scanner_loop_returns [of cq scan_next_frame cops opts cst]
    by (simp add: kill_def)
qed

theorem termination_protocol_witness:
  "fst (cs_capture_worker 0 sample_exit_ticks) = Exited \<and>
   fst (capture_worker 0 sample_exit_ticks) = Exited \<and>
   map payload (snd (cs_capture_worker 0 sample_exit_ticks)) = [Some 1, Some 4, Some 5, None] \<and>
   (\<exists>frames. map payload (snd (capture_worker 0 sample_exit_ticks)) = map Some frames @ [None]) \<and>
   None \<in> set [Some (2::nat), None, Some 3] \<and>
   scanner_loop (spec_scanner 2 sample_cap) spec_ops sample_state [Some 2, None, Some 3] \<noteq> None \<and>
   None \<in> set [Some (1::nat, 5::rat), None] \<and>
   cs_scanner_loop sample_scan_next_frame spec_ops sample_options (cs_scanner_init 0 ())
     [Some (1, 5), None] \<noteq> None"
proof -
  have h: "fst (cs_capture_worker 0 sample_exit_ticks) = Exited"
    "fst (capture_worker 0 sample_exit_ticks) = Exited"
    "map payload (snd (cs_capture_worker 0 sample_exit_ticks)) = [Some 1, Some 4, Some 5, None]"
    by (simp_all add: sample_exit_ticks_def sample_ticks_def enqueue_frame_def Q_LIMIT_def
        INTERVAL_def MAX_SAMPLE_RATE_def)
  have m: "None \<in> set [Some (2::nat), None, Some 3]"
    "None \<in> set [Some (1::nat, 5::rat), None]"
    by simp_all
  show ?thesis
    using h m termination_protocol [where ks = sample_exit_ticks and ?t0.0 = 0
        and q = "[Some 2, None, Some 3]" and sc = "spec_scanner 2 sample_cap" and ops = spec_ops
        and st = sample_state and cq = "[Some (1, 5), None]"
        and scan_next_frame = sample_scan_next_frame and cops = spec_ops
        and opts = sample_options and cst = "cs_scanner_init 0 ()"
        and t = 0 and fr = "0::nat" and k = "hd sample_ticks"
        and c = "\<lparr>task_queue = [Some (0::nat)], kill_queue = []\<rparr>"]
    by blast
qed


section \<open>Properties of the merge engine under the scan worker\<close>

lemma state_set_bounds: "state (set_bounds s b) = state s"
  by (simp add: state_def set_bounds_def)

lemma state_new_frame: "state (new_frame s) = state s"
  by (simp add: state_def new_frame_def)

lemma merge_slots_Cons_fst:
  "fst (merge_slots dec fr regions i (s # ss) calls) =
     fst (merge_slot dec fr (regions i) i s calls)
       # fst (merge_slots dec fr regions (Suc i) ss (snd (merge_slot dec fr (regions i) i s calls)))"
  by (simp add: case_prod_beta)

lemma merge_slots_Cons_snd:
  "snd (merge_slots dec fr regions i (s # ss) calls) =
     snd (merge_slots dec fr regions (Suc i) ss (snd (merge_slot dec fr (regions i) i s calls)))"
  by (simp add: case_prod_beta)

lemma merge_slots_length: "length (fst (merge_slots dec fr regions i ss calls)) = length ss"
  by (induction ss arbitrary: i calls) (simp_all add: merge_slots_Cons_fst del: merge_slots.simps(2))

lemma merge_slot_calls:
  "\<exists>new. snd (merge_slot dec fr region i s calls) = calls @ new \<and> set new \<subseteq> {i} \<and>
         (state s = VALID \<longrightarrow> new = [] \<and>
            s_barcode (fst (merge_slot dec fr region i s calls)) = s_barcode s \<and>
            state (fst (merge_slot dec fr region i s calls)) = VALID)"
  by (simp add: merge_slot_def Let_def state_set_bounds) (simp add: set_bounds_def)

lemma merge_slots_calls:
  "\<exists>new. snd (merge_slots dec fr regions i ss calls) = calls @ new \<and>
         (\<forall>k\<in>set new. i \<le> k \<and> k < i + length ss \<and> state (ss ! (k - i)) \<noteq> VALID)"
proof (induction ss arbitrary: i calls)
  case Nil
  then show ?case by simp
next
  case (Cons s ss)
  define c1 where "c1 = snd (merge_slot dec fr (regions i) i s calls)"
  obtain n1 where n1: "c1 = calls @ n1" "set n1 \<subseteq> {i}" "state s = VALID \<longrightarrow> n1 = []"
    using merge_slot_calls [of dec fr "regions i" i s calls] c1_def by auto
  obtain n2 where n2: "snd (merge_slots dec fr regions (Suc i) ss c1) = c1 @ n2"
      "\<forall>k\<in>set n2. Suc i \<le> k \<and> k < Suc i + length ss \<and> state (ss ! (k - Suc i)) \<noteq> VALID"
    using Cons.IH [of "Suc i" c1] by blast
  have a: "snd (merge_slots dec fr regions i (s # ss) calls) = calls @ (n1 @ n2)"
    using n1(1) n2(1) c1_def by (simp add: merge_slots_Cons_snd del: merge_slots.simps(2))
  have b: "\<forall>k\<in>set n1. i \<le> k \<and> k < i + length (s # ss) \<and> state ((s # ss) ! (k - i)) \<noteq> VALID"
    using n1 by auto
  have c: "\<forall>k\<in>set n2. i \<le> k \<and> k < i + length (s # ss) \<and> state ((s # ss) ! (k - i)) \<noteq> VALID"
  proof
    fix k assume "k \<in> set n2"
    then have k: "Suc i \<le> k" "k < Suc i + length ss" "state (ss ! (k - Suc i)) \<noteq> VALID"
      using n2(2) by auto
    then have "k - i = Suc (k - Suc i)" by simp
    then show "i \<le> k \<and> k < i + length (s # ss) \<and> state ((s # ss) ! (k - i)) \<noteq> VALID"
      using k by simp
  qed
  show ?case using a b c by (intro exI [of _ "n1 @ n2"]) auto
qed

lemma merge_slots_keep:
  "j < length ss \<Longrightarrow> state (ss ! j) = VALID \<Longrightarrow>
   s_barcode (fst (merge_slots dec fr regions i ss calls) ! j) = s_barcode (ss ! j) \<and>
   state (fst (merge_slots dec fr regions i ss calls) ! j) = VALID"
proof (induction ss arbitrary: i j calls)
  case Nil
  then show ?case by simp
next
  case (Cons s ss)
  show ?case
  proof (cases j)
    case 0
    then show ?thesis
      using Cons.prems merge_slot_calls [of dec fr "regions i" i s calls]
      by (auto simp add: merge_slots_Cons_fst simp del: merge_slots.simps(2))
  next
    case (Suc j')
    then show ?thesis
      using Cons.prems Cons.IH [of j' "Suc i"]
      by (simp add: merge_slots_Cons_fst del: merge_slots.simps(2))
  qed
qed

lemma merge_engine_keeps:
  assumes "keeps prev i b"
  shows "\<exists>new. snd (merge_engine cap fr prev calls) = calls @ new \<and> i \<notin> set new \<and>
           keeps (fst (merge_engine cap fr prev calls)) i b"
proof (cases "align cap fr")
  case None
  then show ?thesis using assms by (simp add: merge_engine_def keeps_def)
next
  case (Some regions)
  let ?ss = "map new_frame (slots prev)"
  have v: "i < length ?ss" "state (?ss ! i) = VALID" "s_barcode (?ss ! i) = b"
    using assms by (simp_all add: keeps_def state_new_frame) (simp add: new_frame_def)
  obtain new where new: "snd (merge_slots (decode cap) fr regions 0 ?ss calls) = calls @ new"
      "\<forall>k\<in>set new. 0 \<le> k \<and> k < 0 + length ?ss \<and> state (?ss ! (k - 0)) \<noteq> VALID"
    using merge_slots_calls [of "decode cap" fr regions 0 ?ss calls] by blast
  have "i \<notin> set new" using new(2) v(2) by auto
  moreover have "keeps (fst (merge_engine cap fr prev calls)) i b"
    using merge_slots_keep [OF v(1) v(2), of "decode cap" fr regions 0 calls] v
    by (simp add: merge_engine_def Some keeps_def case_prod_beta merge_slots_length)
  ultimately show ?thesis using new(1)
    by (simp add: merge_engine_def Some case_prod_beta)
qed

lemma handle_plate_returns:
  "num_slots ops p \<noteq> 0 \<Longrightarrow>
   \<exists>st'. handle_plate ops fr p st = Inr st' \<and> ext st' = ext st \<and>
         last_plate st' = (if scan_ok ops p then Some p else last_plate st)"
  by (simp add: handle_plate_def frequency_continuous_def Let_def split: option.splits)

lemma scanner_frame_keeps:
  assumes "last_plate st = Some p" "keeps p i b"
  shows "\<exists>st' new p'. scanner_frame (spec_scanner N cap) spec_ops fr st = Inr st' \<and>
           ext st' = ext st @ new \<and> i \<notin> set new \<and>
           last_plate st' = Some p' \<and> keeps p' i b"
proof -
  define p1 where "p1 = fst (merge_engine cap fr p (ext st))"
  define c1 where "c1 = snd (merge_engine cap fr p (ext st))"
  obtain new where new: "c1 = ext st @ new" "i \<notin> set new" "keeps p1 i b"
    using merge_engine_keeps [OF assms(2), of cap fr "ext st"] p1_def c1_def by blast
  have sf: "scan_frame (spec_scanner N cap) st fr = ((p1, updatedThisFrame p1), c1)"
    using assms(1) by (simp add: scan_frame_def spec_scanner_def p1_def c1_def case_prod_beta)
  have "num_slots spec_ops p1 \<noteq> 0"
    using new(3) by (auto simp add: spec_ops_def numSlots_def keeps_def)
  from handle_plate_returns [OF this, of fr
      "st\<lparr>frame_contains_barcodes := updatedThisFrame p1, ext := c1\<rparr>"]
  obtain st' where st': "handle_plate spec_ops fr p1
        (st\<lparr>frame_contains_barcodes := updatedThisFrame p1, ext := c1\<rparr>) = Inr st'"
      "ext st' = c1"
      "last_plate st' = (if scan_ok spec_ops p1 then Some p1 else Some p)"
    using assms(1) by auto
  have "\<exists>p'. last_plate st' = Some p' \<and> keeps p' i b"
    using st'(3) new(3) assms(2) by auto
  then show ?thesis using st' new sf by (simp add: scanner_frame_def)
qed

text \<open>
  Claim C1: in the scan worker of continuous.py, which hands the previous plate to the
  continuous scan, with the merge engine of the specification as the scanner: once slot
  \<open>i\<close> of the remembered plate is Valid, whatever frames follow before the sentinel,
  the worker returns, the decode capability has been invoked for slot \<open>i\<close> in none
  of them, and slot \<open>i\<close> is still Valid with the barcode it had.
\<close>

theorem valid_slot_not_decoded_again:
  assumes "last_plate st = Some p" and "i < length (slots p)" and "state (slots p ! i) = VALID"
  shows "\<exists>st' new p'.
           scanner_loop (spec_scanner N cap) spec_ops st (map Some frames @ None # q)
             = Some (Inr (st', q)) \<and>
           ext st' = ext st @ new \<and> i \<notin> set new \<and>
           last_plate st' = Some p' \<and> i < length (slots p') \<and>
           s_barcode (slots p' ! i) = s_barcode (slots p ! i) \<and>
           state (slots p' ! i) = VALID"
proof -
  have "keeps p i (s_barcode (slots p ! i))" using assms by (simp add: keeps_def)
  then have "\<exists>st' new p'.
           scanner_loop (spec_scanner N cap) spec_ops st (map Some frames @ None # q)
             = Some (Inr (st', q)) \<and>
           ext st' = ext st @ new \<and> i \<notin> set new \<and>
           last_plate st' = Some p' \<and> keeps p' i (s_barcode (slots p ! i))"
    using assms(1)
  proof (induction frames arbitrary: st p)
    case Nil
    then show ?case by simp
  next
    case (Cons fr frames)
    obtain st1 n1 p1 where s1: "scanner_frame (spec_scanner N cap) spec_ops fr st = Inr st1"
        "ext st1 = ext st @ n1" "i \<notin> set n1" "last_plate st1 = Some p1"
        "keeps p1 i (s_barcode (slots p ! i))"
      using scanner_frame_keeps [OF Cons.prems(2) Cons.prems(1)] by blast
    have "s_barcode (slots p1 ! i) = s_barcode (slots p ! i)" using s1(5) by (simp add: keeps_def)
    then have k1: "keeps p1 i (s_barcode (slots p1 ! i))" using s1(5) by simp
    from Cons.IH [OF k1 s1(4)]
    obtain st' n2 p' where s2:
        "scanner_loop (spec_scanner N cap) spec_ops st1 (map Some frames @ None # q) = Some (Inr (st', q))"
        "ext st' = ext st1 @ n2" "i \<notin> set n2" "last_plate st' = Some p'"
        "keeps p' i (s_barcode (slots p1 ! i))"
      by blast
    show ?case
      using s1 s2 \<open>s_barcode (slots p1 ! i) = s_barcode (slots p ! i)\<close>
      by (intro exI [of _ st'] exI [of _ "n1 @ n2"] exI [of _ p']) simp
  qed
  then show ?thesis by (auto simp add: keeps_def)
qed

theorem valid_slot_not_decoded_again_witness:
  "last_plate sample_state = Some sample_valid_plate \<and>
   0 < length (slots sample_valid_plate) \<and>
   state (slots sample_valid_plate ! 0) = VALID \<and>
   (\<exists>st' new p'.
      scanner_loop (spec_scanner 2 sample_cap) spec_ops sample_state
        (map Some [2, 0, 3] @ None # [Some 4]) = Some (Inr (st', [Some 4])) \<and>
      ext st' = ext sample_state @ new \<and> 0 \<notin> set new \<and>
      last_plate st' = Some p' \<and> 0 < length (slots p') \<and>
      s_barcode (slots p' ! 0) = s_barcode (slots sample_valid_plate ! 0) \<and>
      state (slots p' ! 0) = VALID)"
proof -
  have h: "last_plate sample_state = Some sample_valid_plate"
    "0 < length (slots sample_valid_plate)"
    "state (slots sample_valid_plate ! 0) = VALID"
    by (simp_all add: sample_defs slot_defs)
  show ?thesis
    using h valid_slot_not_decoded_again [OF h, of 2 sample_cap "[2, 0, 3]" "[Some 4]"]
    by simp
qed

text \<open>
  On the sample run the decoder is invoked for slot 1 in frames 2 and 3, never for slot 0,
  and not at all in frame 0, whose alignment fails.
\<close>

lemma sample_run_calls:
  "(case scanner_loop (spec_scanner 2 sample_cap) spec_ops sample_state
           [Some 2, Some 0, Some 3, None] of
      Some (Inr (st', q)) \<Rightarrow> ext st' = [1, 1] \<and> q = []
    | _ \<Rightarrow> False)"
  by (simp add: scanner_frame_def scan_frame_def handle_plate_def sample_defs merge_defs slot_defs
      frequency_continuous_def upt_rec)


end
